theory Spec2Isabelle
  imports Main
begin

section \<open>Strings as the permit validation service uses them\<close>

text \<open>
  The service (\<^verbatim>\<open>strr_api/services/validation_service.py\<close>) works on Python strings.
  A string is modelled as a \<^typ>\<open>string\<close>, read as ASCII text: the character classes
  below are those of Python for the code points below 128, and a character above that
  range is taken as a caseless character that is neither a word character nor white space.
\<close>

definition code :: "char \<Rightarrow> nat" where
  "code c = of_char c"

text \<open>\<^verbatim>\<open>\s\<close> of \<^verbatim>\<open>re\<close> and the characters \<^verbatim>\<open>str.strip()\<close> removes: tab, line feed,
  vertical tab, form feed, carriage return, the four separators 28 to 31, and the space.\<close>

definition is_space :: "char \<Rightarrow> bool" where
  "is_space c = ((9 \<le> code c \<and> code c \<le> 13) \<or> (28 \<le> code c \<and> code c \<le> 32))"

text \<open>\<^verbatim>\<open>\w\<close> of \<^verbatim>\<open>re\<close>: digits, letters and the underscore.\<close>

definition is_word :: "char \<Rightarrow> bool" where
  "is_word c = ((48 \<le> code c \<and> code c \<le> 57) \<or> (65 \<le> code c \<and> code c \<le> 90)
     \<or> code c = 95 \<or> (97 \<le> code c \<and> code c \<le> 122))"

definition lower_char :: "char \<Rightarrow> char" where
  "lower_char c = (if 65 \<le> code c \<and> code c \<le> 90 then char_of (code c + 32) else c)"

definition upper_char :: "char \<Rightarrow> char" where
  "upper_char c = (if 97 \<le> code c \<and> code c \<le> 122 then char_of (code c - 32) else c)"

text \<open>\<^verbatim>\<open>s.lower()\<close> and \<^verbatim>\<open>s.upper()\<close>.\<close>

definition lower :: "string \<Rightarrow> string" where
  "lower s = map lower_char s"

definition upper :: "string \<Rightarrow> string" where
  "upper s = map upper_char s"

text \<open>\<^verbatim>\<open>s.strip()\<close>: white space is removed at both ends.\<close>

definition strip :: "string \<Rightarrow> string" where
  "strip s = rev (dropWhile is_space (rev (dropWhile is_space s)))"

text \<open>\<^verbatim>\<open>s.split(" ")[0]\<close>: the text before the first space character (the whole string
  when it has none; the list \<^verbatim>\<open>split\<close> returns is never empty).\<close>

definition split_space_first :: "string \<Rightarrow> string" where
  "split_space_first s = takeWhile (\<lambda>c. c \<noteq> CHR '' '') s"

text \<open>\<^verbatim>\<open>s.replace(" ", "")\<close>.\<close>

definition remove_spaces :: "string \<Rightarrow> string" where
  "remove_spaces s = filter (\<lambda>c. c \<noteq> CHR '' '') s"

section \<open>The address normalizer\<close>

text \<open>
  \<^verbatim>\<open>_get_filtered_unit_number\<close> applies four substitutions and an upper-casing.
  Every pattern matches non-empty text only, so \<^verbatim>\<open>re.sub\<close> scans the string from left
  to right, replaces the leftmost match and continues behind it.

  First substitution, \<^verbatim>\<open>^[#-]+\s*\<close>: at the start of the string only, a non-empty run of
  \<^verbatim>\<open>#\<close> and \<^verbatim>\<open>-\<close> and the white space behind it.
\<close>

definition is_marker :: "char \<Rightarrow> bool" where
  "is_marker c = (c = CHR ''#'' \<or> c = CHR ''-'')"

definition strip_leading :: "string \<Rightarrow> string" where
  "strip_leading s =
     (case s of [] \<Rightarrow> []
      | c # cs \<Rightarrow> if is_marker c then dropWhile is_space (dropWhile is_marker cs) else s)"

text \<open>
  Second substitution: \<^verbatim>\<open>\b(Suite|Unit|SL|Strata Lot|Room|Lot|RM|Cabin|Bldg|ste|Nbr|Unt|\<close>
  \<^verbatim>\<open>Apartment|Apt|Number|Num|Floor|Flr|Fl|BUILDING|No\.?)\<close>, ignoring case. The alternatives
  are tried in the order written and the first that matches is taken; the greedy
  \<^verbatim>\<open>No\.?\<close> is the alternative \<^verbatim>\<open>No.\<close> followed by the alternative \<^verbatim>\<open>No\<close>.
  The pattern has a word boundary in front and none behind.
\<close>

definition unit_keywords :: "string list" where
  "unit_keywords = [''suite'', ''unit'', ''sl'', ''strata lot'', ''room'', ''lot'', ''rm'',
     ''cabin'', ''bldg'', ''ste'', ''nbr'', ''unt'', ''apartment'', ''apt'', ''number'',
     ''num'', ''floor'', ''flr'', ''fl'', ''building'', ''no.'', ''no'']"

text \<open>A keyword matches at the head of \<open>s\<close> when the head of \<open>s\<close>, lower-cased, is the
  keyword.\<close>

definition matches_at :: "string \<Rightarrow> string \<Rightarrow> bool" where
  "matches_at k s = (length k \<le> length s \<and> lower (take (length k) s) = k)"

text \<open>The number of characters the group matches at the head of \<open>s\<close>; 0 when no
  alternative matches.\<close>

definition match_len :: "string \<Rightarrow> nat" where
  "match_len s = (case find (\<lambda>k. matches_at k s) unit_keywords of None \<Rightarrow> 0 | Some k \<Rightarrow> length k)"

text \<open>
  The scan of the second substitution. \<open>kw_scan n pw s\<close>: \<open>s\<close> is the text not yet
  read, \<open>n\<close> the number of characters of a match still to drop, and \<open>pw\<close> tells whether
  the character before \<open>s\<close> in the subject is a word character (false at the start).
  Every keyword starts with a letter, so the boundary \<^verbatim>\<open>\b\<close> in front of a match is
  there exactly when \<open>pw\<close> is false.
\<close>

fun kw_scan :: "nat \<Rightarrow> bool \<Rightarrow> string \<Rightarrow> string" where
  "kw_scan n pw [] = []"
| "kw_scan (Suc n) pw (c # cs) = kw_scan n (is_word c) cs"
| "kw_scan 0 pw (c # cs) =
     (if pw then c # kw_scan 0 (is_word c) cs
      else (case match_len (c # cs) of
              0 \<Rightarrow> c # kw_scan 0 (is_word c) cs
            | Suc n \<Rightarrow> kw_scan n (is_word c) cs))"

definition remove_keywords :: "string \<Rightarrow> string" where
  "remove_keywords s = kw_scan 0 False s"

text \<open>Third substitution, \<^verbatim>\<open>[-.\s]+\<close>: every hyphen, period and white space goes.\<close>

definition is_separator :: "char \<Rightarrow> bool" where
  "is_separator c = (c = CHR ''-'' \<or> c = CHR ''.'' \<or> is_space c)"

definition remove_separators :: "string \<Rightarrow> string" where
  "remove_separators s = filter (\<lambda>c. \<not> is_separator c) s"

text \<open>
  Fourth substitution, \<^verbatim>\<open>\b0+(\w+)\<close> replaced by its group. A match starts at a zero
  that begins a word, and the greedy \<^verbatim>\<open>\w+\<close> runs to the end of that word: the zeros in
  front of the word go. When the word is made of zeros only, \<^verbatim>\<open>0+\<close> gives one zero back
  to the group, so one zero stays (and a word that is the single character 0 does not
  match). The scan keeps one of three states: outside a word, inside a word, or behind
  the zeros that begin a word.
\<close>

datatype zero_state = Outside | Inside | Zeros

fun after_char :: "char \<Rightarrow> zero_state" where
  "after_char c = (if is_word c then Inside else Outside)"

fun zero_scan :: "zero_state \<Rightarrow> string \<Rightarrow> string" where
  "zero_scan Zeros [] = ''0''"
| "zero_scan st [] = []"
| "zero_scan Outside (c # cs) =
     (if c = CHR ''0'' then zero_scan Zeros cs else c # zero_scan (after_char c) cs)"
| "zero_scan Inside (c # cs) = c # zero_scan (after_char c) cs"
| "zero_scan Zeros (c # cs) =
     (if c = CHR ''0'' then zero_scan Zeros cs
      else if is_word c then c # zero_scan Inside cs
      else CHR ''0'' # c # zero_scan Outside cs)"

definition strip_leading_zeros :: "string \<Rightarrow> string" where
  "strip_leading_zeros s = zero_scan Outside s"

definition get_filtered_unit_number :: "string \<Rightarrow> string" where
  "get_filtered_unit_number unit_number =
     upper (strip_leading_zeros (remove_separators (remove_keywords (strip_leading unit_number))))"

section \<open>Requests, registrations and responses\<close>

text \<open>
  The request is the JSON object the caller sends. The values of the address object are
  JSON scalars: null, a boolean, an integer or a string (a number with a fraction and a
  nested value in an address field are outside the model). A JSON object is an
  association list with distinct keys, in insertion order as a Python \<^verbatim>\<open>dict\<close> keeps them.
\<close>

datatype jv = JNull | JBool bool | JInt int | JStr string

datatype json = Val jv | Obj "(string \<times> jv) list" | Dicts "(string \<times> jv) list list"

type_synonym dict = "(string \<times> json) list"

text \<open>\<^verbatim>\<open>d[k] = v\<close> on a dictionary: the value of an existing key is replaced in place, a
  new key goes to the end.\<close>

fun dict_set :: "string \<Rightarrow> 'v \<Rightarrow> (string \<times> 'v) list \<Rightarrow> (string \<times> 'v) list" where
  "dict_set k v [] = [(k, v)]"
| "dict_set k v ((k', v') # kvs) =
     (if k' = k then (k, v) # kvs else (k', v') # dict_set k v kvs)"

text \<open>\<^verbatim>\<open>str(v)\<close> of a JSON scalar.\<close>

fun nat_str :: "nat \<Rightarrow> string" where
  "nat_str n = (if n < 10 then [char_of (48 + n)] else nat_str (n div 10) @ [char_of (48 + n mod 10)])"

declare nat_str.simps [simp del]

fun py_str :: "jv \<Rightarrow> string" where
  "py_str JNull = ''None''"
| "py_str (JBool b) = (if b then ''True'' else ''False'')"
| "py_str (JInt i) = (if i < 0 then CHR ''-'' # nat_str (nat (- i)) else nat_str (nat i))"
| "py_str (JStr s) = s"

text \<open>The truth value Python gives a JSON scalar in a condition.\<close>

fun truthy :: "jv \<Rightarrow> bool" where
  "truthy JNull = False"
| "truthy (JBool b) = b"
| "truthy (JInt i) = (i \<noteq> 0)"
| "truthy (JStr s) = (s \<noteq> [])"

text \<open>\<^verbatim>\<open>d.get(k)\<close>, which is \<^verbatim>\<open>None\<close> for a missing key.\<close>

definition get_or_none :: "(string \<times> jv) list \<Rightarrow> string \<Rightarrow> jv" where
  "get_or_none d k = (case map_of d k of None \<Rightarrow> JNull | Some v \<Rightarrow> v)"

text \<open>
  The enumerations \<^verbatim>\<open>RegistrationStatus\<close>, \<^verbatim>\<open>RegistrationType\<close> and \<^verbatim>\<open>ErrorMessage\<close>
  are imported by the service. The service tells \<^verbatim>\<open>ACTIVE\<close> from every other status and
  reads the name of a status; it tells the types \<^verbatim>\<open>HOST\<close> and \<^verbatim>\<open>STRATA_HOTEL\<close> from
  every other type; it reads the name and the message text of an error. The message
  text of an error is a parameter \<open>msg\<close> of the model.
\<close>

datatype registration_status = ACTIVE | INACTIVE string

fun status_name :: "registration_status \<Rightarrow> string" where
  "status_name ACTIVE = ''ACTIVE''"
| "status_name (INACTIVE n) = n"

datatype registration_type = HOST | STRATA_HOTEL | OTHER_TYPE

datatype error_message =
  STREET_NUMBER_MISMATCH | POSTAL_CODE_MISMATCH | UNIT_NUMBER_MISMATCH | ADDRESS_MISMATCH
  | PERMIT_NOT_FOUND

fun error_name :: "error_message \<Rightarrow> string" where
  "error_name STREET_NUMBER_MISMATCH = ''STREET_NUMBER_MISMATCH''"
| "error_name POSTAL_CODE_MISMATCH = ''POSTAL_CODE_MISMATCH''"
| "error_name UNIT_NUMBER_MISMATCH = ''UNIT_NUMBER_MISMATCH''"
| "error_name ADDRESS_MISMATCH = ''ADDRESS_MISMATCH''"
| "error_name PERMIT_NOT_FOUND = ''PERMIT_NOT_FOUND''"

datatype http_status = OK | BAD_REQUEST | NOT_FOUND

text \<open>The exceptions the matching code can raise: an attribute or method read on a value
  that does not have it (\<^verbatim>\<open>None.replace\<close>, \<^verbatim>\<open>None.get\<close>), and a value of the wrong type
  given to \<^verbatim>\<open>re.sub\<close> or to \<^verbatim>\<open>in\<close>.\<close>

datatype py_error = AttributeError | TypeError

text \<open>
  An address of a permit; a column that holds no value reads as \<^verbatim>\<open>None\<close>. A building of a
  strata hotel is modelled by its address. The expiry date of a registration is a point
  in time, and its rendering in the legislation time zone as \<^verbatim>\<open>YYYY-MM-DD\<close>
  (\<^verbatim>\<open>DateUtil\<close>, imported by the service) is a parameter \<open>render\<close> of the model.
\<close>

record address =
  street_number :: "string option"
  unit_number :: "string option"
  postal_code :: "string option"
  street_address :: "string option"

record strata_hotel =
  location :: address
  buildings :: "address list"

record registration =
  status :: registration_status
  registration_type :: registration_type
  rental_property :: "address option"
  strata_hotel :: "strata_hotel option"
  expiry_date :: int

section \<open>The permit matcher\<close>

text \<open>\<^verbatim>\<open>address_json.get("postalCode", "")\<close> followed by \<^verbatim>\<open>.replace(" ", "").lower()\<close>: the
  default is used for a missing key only, and a value that is no string has no
  \<^verbatim>\<open>replace\<close>.\<close>

definition request_postal_code :: "(string \<times> jv) list \<Rightarrow> py_error + string" where
  "request_postal_code address_json =
     (case map_of address_json ''postalCode'' of
        None \<Rightarrow> Inr []
      | Some (JStr s) \<Rightarrow> Inr (lower (remove_spaces s))
      | Some _ \<Rightarrow> Inl AttributeError)"

definition permit_postal_code :: "address \<Rightarrow> py_error + string" where
  "permit_postal_code a =
     (case postal_code a of None \<Rightarrow> Inl AttributeError | Some s \<Rightarrow> Inr (lower (remove_spaces s)))"

text \<open>The street number check of a host registration: skipped when the permit has no
  street number (\<^verbatim>\<open>None\<close> or the empty string).\<close>

definition street_number_mismatch :: "(string \<times> jv) list \<Rightarrow> address \<Rightarrow> bool" where
  "street_number_mismatch address_json a =
     (let request_street_number = strip (lower (py_str (get_or_none address_json ''streetNumber'')));
          request_street_number_sub = split_space_first request_street_number
      in case street_number a of
           None \<Rightarrow> False
         | Some permit_street_number \<Rightarrow>
             permit_street_number \<noteq> [] \<and>
             strip (lower permit_street_number) \<notin> {request_street_number, request_street_number_sub})"

text \<open>The postal code check of a host registration.\<close>

definition postal_code_mismatch :: "string \<Rightarrow> string \<Rightarrow> bool" where
  "postal_code_mismatch request_code permit_code =
     (\<not> (request_code = permit_code
          \<or> (length request_code \<ge> 4 \<and> take 4 request_code = take 4 permit_code)))"

text \<open>The unit number check of a host registration; the result is the flag
  \<^verbatim>\<open>has_unit_number_validation_error\<close>. The permit's unit number is normalized only
  when both unit numbers are truthy, and \<^verbatim>\<open>re.sub\<close> raises on a value that is no string.\<close>

definition unit_number_check :: "(string \<times> jv) list \<Rightarrow> address \<Rightarrow> py_error + bool" where
  "unit_number_check address_json a =
     (let input_unit_number = get_or_none address_json ''unitNumber'' in
      if truthy input_unit_number then
        (case unit_number a of
           None \<Rightarrow> Inr True
         | Some permit_unit_number \<Rightarrow>
             if permit_unit_number \<noteq> [] then
               (case input_unit_number of
                  JStr u \<Rightarrow> Inr (get_filtered_unit_number u \<noteq> get_filtered_unit_number permit_unit_number)
                | _ \<Rightarrow> Inl TypeError)
             else Inr True)
      else
        (case unit_number a of
           None \<Rightarrow> Inr False
         | Some permit_unit_number \<Rightarrow> Inr (permit_unit_number \<noteq> [])))"

text \<open>The host branch of \<^verbatim>\<open>check_permit_details\<close>: the three checks run one after the
  other and their errors are collected.\<close>

definition host_checks :: "(string \<times> jv) list \<Rightarrow> address option \<Rightarrow> py_error + error_message list" where
  "host_checks address_json rental =
     (case rental of
        None \<Rightarrow> Inl AttributeError
      | Some a \<Rightarrow>
          (case request_postal_code address_json of
             Inl e \<Rightarrow> Inl e
           | Inr request_code \<Rightarrow>
               (case permit_postal_code a of
                  Inl e \<Rightarrow> Inl e
                | Inr permit_code \<Rightarrow>
                    (case unit_number_check address_json a of
                       Inl e \<Rightarrow> Inl e
                     | Inr has_unit_number_validation_error \<Rightarrow>
                         Inr ((if street_number_mismatch address_json a then [STREET_NUMBER_MISMATCH] else [])
                              @ (if postal_code_mismatch request_code permit_code then [POSTAL_CODE_MISMATCH] else [])
                              @ (if has_unit_number_validation_error then [UNIT_NUMBER_MISMATCH] else []))))))"

text \<open>\<^verbatim>\<open>_get_text_after_hyphen\<close> and \<^verbatim>\<open>_extract_street_number\<close>.\<close>

definition get_text_after_hyphen :: "string \<Rightarrow> string" where
  "get_text_after_hyphen address_line =
     (if CHR ''-'' \<in> set address_line
      then strip (tl (dropWhile (\<lambda>c. c \<noteq> CHR ''-'') address_line))
      else address_line)"

definition extract_street_number :: "string \<Rightarrow> string" where
  "extract_street_number a = split_space_first (strip a)"

text \<open>
  The test the strata branch makes on one candidate address (the primary location or a
  building). \<^verbatim>\<open>"-" in None\<close> raises a type error; the postal codes are read only when
  the street number has matched, as \<^verbatim>\<open>and\<close> evaluates its right operand only then.
\<close>

definition candidate_matches :: "(string \<times> jv) list \<Rightarrow> address \<Rightarrow> py_error + bool" where
  "candidate_matches address_json a =
     (let request_street_number = strip (py_str (get_or_none address_json ''streetNumber''));
          request_street_number_sub = split_space_first request_street_number
      in case street_address a of
           None \<Rightarrow> Inl TypeError
         | Some line \<Rightarrow>
             if extract_street_number (get_text_after_hyphen line)
                  \<in> {request_street_number, request_street_number_sub}
             then (case request_postal_code address_json of
                     Inl e \<Rightarrow> Inl e
                   | Inr request_code \<Rightarrow>
                       (case permit_postal_code a of
                          Inl e \<Rightarrow> Inl e
                        | Inr permit_code \<Rightarrow> Inr (take 4 request_code = take 4 permit_code)))
             else Inr False)"

text \<open>The loop over the buildings, left at the first building that matches.\<close>

fun buildings_match :: "(string \<times> jv) list \<Rightarrow> address list \<Rightarrow> py_error + bool" where
  "buildings_match address_json [] = Inr False"
| "buildings_match address_json (b # bs) =
     (case candidate_matches address_json b of
        Inl e \<Rightarrow> Inl e
      | Inr match_found \<Rightarrow> if match_found then Inr True else buildings_match address_json bs)"

definition strata_checks :: "(string \<times> jv) list \<Rightarrow> strata_hotel \<Rightarrow> py_error + error_message list" where
  "strata_checks address_json sh =
     (case candidate_matches address_json (location sh) of
        Inl e \<Rightarrow> Inl e
      | Inr match_found \<Rightarrow>
          (case (if match_found then Inr True else buildings_match address_json (buildings sh)) of
             Inl e \<Rightarrow> Inl e
           | Inr match_found' \<Rightarrow> Inr (if match_found' then [] else [ADDRESS_MISMATCH])))"

text \<open>The end of \<^verbatim>\<open>check_permit_details\<close>: the response is the copy of the request with
  either the errors or the status and the date the permit is valid until.\<close>

definition error_json :: "(error_message \<Rightarrow> string) \<Rightarrow> error_message \<Rightarrow> (string \<times> jv) list" where
  "error_json msg e = [(''code'', JStr (error_name e)), (''message'', JStr (msg e))]"

definition respond ::
  "(error_message \<Rightarrow> string) \<Rightarrow> (int \<Rightarrow> string) \<Rightarrow> dict \<Rightarrow> registration \<Rightarrow> error_message list
     \<Rightarrow> dict \<times> http_status" where
  "respond msg render request_json reg errors =
     (if errors \<noteq> []
      then (dict_set ''errors'' (Dicts (map (error_json msg) errors)) request_json, BAD_REQUEST)
      else (dict_set ''validUntil'' (Val (JStr (render (expiry_date reg))))
              (dict_set ''status'' (Val (JStr (status_name (status reg)))) request_json), OK))"

text \<open>The address object of the request, on which \<^verbatim>\<open>get\<close> is called: anything but an
  object (a missing key included) has no \<^verbatim>\<open>get\<close>.\<close>

definition address_object :: "dict \<Rightarrow> py_error + (string \<times> jv) list" where
  "address_object request_json =
     (case map_of request_json ''address'' of Some (Obj a) \<Rightarrow> Inr a | _ \<Rightarrow> Inl AttributeError)"

definition check_permit_details ::
  "(error_message \<Rightarrow> string) \<Rightarrow> (int \<Rightarrow> string) \<Rightarrow> dict \<Rightarrow> registration
     \<Rightarrow> py_error + dict \<times> http_status" where
  "check_permit_details msg render request_json reg =
     (if status reg \<noteq> ACTIVE
      then Inr (dict_set ''status'' (Val (JStr (status_name (status reg)))) request_json, OK)
      else
        (case (case registration_type reg of
                 HOST \<Rightarrow>
                   (case address_object request_json of
                      Inl e \<Rightarrow> Inl e
                    | Inr address_json \<Rightarrow> host_checks address_json (rental_property reg))
               | STRATA_HOTEL \<Rightarrow>
                   (case strata_hotel reg of
                      None \<Rightarrow> Inl AttributeError
                    | Some sh \<Rightarrow>
                        (case address_object request_json of
                           Inl e \<Rightarrow> Inl e
                         | Inr address_json \<Rightarrow> strata_checks address_json sh))
               | OTHER_TYPE \<Rightarrow> Inr []) of
           Inl e \<Rightarrow> Inl e
         | Inr errors \<Rightarrow> Inr (respond msg render request_json reg errors)))"

section \<open>The validation orchestrator\<close>

text \<open>
  \<^verbatim>\<open>validate_permit\<close> calls three collaborators: the schema validator and the lookup of
  a registration by its number, which are the parameters \<open>validate\<close> and \<open>find\<close>, and the
  store of audit records, which is the list of the records saved so far. An audit
  record holds the request, the response and the status code. An exception raised by
  the matcher leaves \<^verbatim>\<open>validate_permit\<close> before the record is created.
\<close>

record audit_record =
  request_json :: dict
  response_json :: dict
  status_code :: http_status



section \<open>Example requests and registrations\<close>

text \<open>A host permit at 123 Main Street, unit 4B, and a request that names it with a
  postal code that differs behind the fourth character.\<close>

definition host_address :: address where
  "host_address = \<lparr>street_number = Some ''123'', unit_number = Some ''4B'',
     postal_code = Some ''V8V 1V2'', street_address = Some ''4B-123 Main St''\<rparr>"

definition host_registration :: registration where
  "host_registration = \<lparr>status = ACTIVE, registration_type = HOST,
     rental_property = Some host_address, strata_hotel = None, expiry_date = 0\<rparr>"

definition host_claim :: "(string \<times> jv) list" where
  "host_claim = [(''streetNumber'', JStr ''123''), (''postalCode'', JStr ''V8V1V1''),
     (''unitNumber'', JStr ''4B'')]"

definition host_request :: dict where
  "host_request = [(''identifier'', Val (JStr ''H123'')), (''address'', Obj host_claim)]"

definition expired_registration :: registration where
  "expired_registration = host_registration\<lparr>status := INACTIVE ''EXPIRED''\<rparr>"

definition no_message :: "error_message \<Rightarrow> string" where
  "no_message e = []"

definition no_date :: "int \<Rightarrow> string" where
  "no_date t = []"

definition suite_claim :: "(string \<times> jv) list" where
  "suite_claim = [(''streetNumber'', JStr ''123''), (''postalCode'', JStr ''V8V1V1''),
     (''unitNumber'', JStr ''Suite'')]"

definition suite_request :: dict where
  "suite_request = [(''identifier'', Val (JStr ''H123'')), (''address'', Obj suite_claim)]"

definition room_address :: address where
  "room_address = host_address\<lparr>unit_number := Some ''Room''\<rparr>"

definition room_registration :: registration where
  "room_registration = host_registration\<lparr>rental_property := Some room_address\<rparr>"

text \<open>Strata hotels. The third building of the resort matches the strata claim; its
  fourth building has no street address and no postal code on file.\<close>

definition plain_address :: "string \<Rightarrow> string \<Rightarrow> address" where
  "plain_address line postal = \<lparr>street_number = None, unit_number = None,
     postal_code = Some postal, street_address = Some line\<rparr>"

definition blank_address :: address where
  "blank_address = \<lparr>street_number = None, unit_number = None, postal_code = None,
     street_address = None\<rparr>"

definition strata_registration :: "strata_hotel \<Rightarrow> registration" where
  "strata_registration sh = \<lparr>status = ACTIVE, registration_type = STRATA_HOTEL,
     rental_property = None, strata_hotel = Some sh, expiry_date = 0\<rparr>"

definition strata_claim :: "(string \<times> jv) list" where
  "strata_claim = [(''streetNumber'', JStr ''12''), (''postalCode'', JStr ''V8V1V1'')]"

definition strata_request :: dict where
  "strata_request = [(''identifier'', Val (JStr ''ST1'')), (''address'', Obj strata_claim)]"

definition resort :: strata_hotel where
  "resort = \<lparr>location = plain_address ''100 Main St'' ''V8V 1V1'',
     buildings = [plain_address ''A-12 Oak St'' ''V9A 2B2'', plain_address ''14 Oak St'' ''V8V 1V1'',
       plain_address ''B - 12 Oak St'' ''V8V 1Z9'', blank_address]\<rparr>"

text \<open>A street-address line with a tab between the number and the street name, and a
  postal code that is a single tab.\<close>

definition tab_line :: string where
  "tab_line = ''12'' @ [CHR 0x09] @ ''Main St''"

definition tab_hotel :: strata_hotel where
  "tab_hotel = \<lparr>location = plain_address tab_line ''V8V 1V1'', buildings = []\<rparr>"

definition tab_postal_hotel :: strata_hotel where
  "tab_postal_hotel = \<lparr>location = plain_address ''12 Main St'' [CHR 0x09], buildings = []\<rparr>"

definition spaces_postal_hotel :: strata_hotel where
  "spaces_postal_hotel = \<lparr>location = plain_address ''12 Main St'' ''  '', buildings = []\<rparr>"

definition no_postal_claim :: "(string \<times> jv) list" where
  "no_postal_claim = [(''streetNumber'', JStr ''12'')]"

definition no_postal_request :: dict where
  "no_postal_request = [(''identifier'', Val (JStr ''ST1'')), (''address'', Obj no_postal_claim)]"

text \<open>The host permit without a postal code on file.\<close>

definition no_postal_registration :: registration where
  "no_postal_registration =
     host_registration\<lparr>rental_property := Some (host_address\<lparr>postal_code := None\<rparr>)\<rparr>"





section \<open>The claims in the words of the specification\<close>

text \<open>
  A claim unit number or a permit unit number that may be absent: the request gives
  \<^verbatim>\<open>None\<close> or a string, and a unit number is there when it is a non-empty string.
\<close>

definition has_unit :: "string option \<Rightarrow> bool" where
  "has_unit x = (case x of None \<Rightarrow> False | Some s \<Rightarrow> s \<noteq> [])"

definition claim_unit :: "string option \<Rightarrow> jv" where
  "claim_unit x = (case x of None \<Rightarrow> JNull | Some s \<Rightarrow> JStr s)"

text \<open>
  The strata match as the specification words it: the street number of a candidate is
  the first white-space token of the text after the first hyphen of its line (of the
  whole line when it has no hyphen), and it is compared with the street number of the
  claim and with the first white-space token of that.
\<close>

definition first_whitespace_token :: "string \<Rightarrow> string" where
  "first_whitespace_token s = takeWhile (\<lambda>c. \<not> is_space c) (dropWhile is_space s)"

definition spec_text_after_hyphen :: "string \<Rightarrow> string" where
  "spec_text_after_hyphen line =
     (if CHR ''-'' \<in> set line then tl (dropWhile (\<lambda>c. c \<noteq> CHR ''-'') line) else line)"

definition spec_candidate_matches :: "string \<Rightarrow> string \<Rightarrow> string \<Rightarrow> string \<Rightarrow> bool" where
  "spec_candidate_matches claim_number claim_postal line postal =
     (first_whitespace_token (spec_text_after_hyphen line)
        \<in> {claim_number, first_whitespace_token claim_number}
      \<and> take 4 (lower (remove_spaces claim_postal)) = take 4 (lower (remove_spaces postal)))"

text \<open>
  The inputs on which the matcher raises nothing: the address of the request is an
  object whose postal code is missing or a string and whose unit number is a string or
  falsy, and the records the branch reads are on file with their postal codes (and, for
  a strata hotel, their street-address lines).
\<close>

definition claim_well_typed :: "dict \<Rightarrow> bool" where
  "claim_well_typed request =
     (case address_object request of
        Inl e \<Rightarrow> False
      | Inr a \<Rightarrow>
          (case request_postal_code a of Inl e \<Rightarrow> False | Inr c \<Rightarrow> True)
          \<and> (case get_or_none a ''unitNumber'' of JStr u \<Rightarrow> True | v \<Rightarrow> \<not> truthy v))"

definition complete_address :: "address \<Rightarrow> bool" where
  "complete_address a = (street_address a \<noteq> None \<and> postal_code a \<noteq> None)"

definition records_present :: "registration \<Rightarrow> bool" where
  "records_present reg =
     (case registration_type reg of
        HOST \<Rightarrow> (case rental_property reg of None \<Rightarrow> False | Some p \<Rightarrow> postal_code p \<noteq> None)
      | STRATA_HOTEL \<Rightarrow>
          (case strata_hotel reg of
             None \<Rightarrow> False
           | Some sh \<Rightarrow> list_all complete_address (location sh # buildings sh))
      | OTHER_TYPE \<Rightarrow> True)"

section \<open>What the normalizer leaves unchanged\<close>



section \<open>Properties of the matcher\<close>

lemma map_of_dict_set: "map_of (dict_set k v d) k' = (if k' = k then Some v else map_of d k')"
  by (induction d) auto

lemma host_outcome:
  assumes "status reg = ACTIVE" and "registration_type reg = HOST"
    and "address_object req = Inr a" and "rental_property reg = Some p"
    and "request_postal_code a = Inr rc" and "permit_postal_code p = Inr pc"
    and "unit_number_check a p = Inr u"
  shows "check_permit_details msg render req reg =
     Inr (respond msg render req reg
       ((if street_number_mismatch a p then [STREET_NUMBER_MISMATCH] else [])
        @ (if postal_code_mismatch rc pc then [POSTAL_CODE_MISMATCH] else [])
        @ (if u then [UNIT_NUMBER_MISMATCH] else [])))"
  using assms by (simp add: check_permit_details_def host_checks_def)

lemma host_example_facts:
  "status host_registration = ACTIVE" "registration_type host_registration = HOST"
  "address_object host_request = Inr host_claim"
  "rental_property host_registration = Some host_address"
  by (simp_all add: host_registration_def host_request_def address_object_def)

lemma host_example_postal:
  "request_postal_code host_claim = Inr ''v8v1v1''"
  "permit_postal_code host_address = Inr ''v8v1v2''"
  by code_simp+

lemma host_example_unit: "unit_number_check host_claim host_address = Inr False"
  by code_simp

text \<open>
  Claim C6, as the code has it. For every registration whose status is not ACTIVE,
  \<^verbatim>\<open>check_permit_details\<close> returns, whatever the request holds, the status code 200 and
  the copy of the request with the key \<^verbatim>\<open>status\<close> set to the name of that status. Every
  other key of the response has the value the request gives it: no errors and no
  validUntil date are added, and no field of an address is read.
\<close>

theorem inactive_permit_short_circuit:
  assumes "status reg \<noteq> ACTIVE"
  shows "check_permit_details msg render req reg
           = Inr (dict_set ''status'' (Val (JStr (status_name (status reg)))) req, OK)
         \<and> (\<forall>k. k \<noteq> ''status'' \<longrightarrow>
               map_of (dict_set ''status'' (Val (JStr (status_name (status reg)))) req) k
                 = map_of req k)"
  using assms by (simp add: check_permit_details_def map_of_dict_set)

theorem inactive_permit_short_circuit_witness:
  "status expired_registration \<noteq> ACTIVE
   \<and> check_permit_details no_message no_date host_request expired_registration
       = Inr (host_request @ [(''status'', Val (JStr ''EXPIRED''))], OK)
   \<and> map_of (host_request @ [(''status'', Val (JStr ''EXPIRED''))]) ''validUntil'' = None
   \<and> map_of (host_request @ [(''status'', Val (JStr ''EXPIRED''))]) ''errors'' = None"
proof -
  have h: "status expired_registration \<noteq> ACTIVE"
    by (simp add: expired_registration_def)
  have "dict_set ''status'' (Val (JStr (status_name (status expired_registration)))) host_request
      = host_request @ [(''status'', Val (JStr ''EXPIRED''))]"
    by (simp add: expired_registration_def host_request_def)
  with inactive_permit_short_circuit [OF h, of no_message no_date host_request] h
  show ?thesis by (simp add: host_request_def)
qed

text \<open>
  Claim C6 as stated says that the response holds the status and nothing else. The
  response of the expired permit to the example request holds the identifier and the
  address of the request as well.
\<close>

theorem inactive_response_counterexample:
  "check_permit_details no_message no_date host_request expired_registration
     = Inr ([(''identifier'', Val (JStr ''H123'')), (''address'', Obj host_claim),
             (''status'', Val (JStr ''EXPIRED''))], OK)
   \<and> check_permit_details no_message no_date host_request expired_registration
     \<noteq> Inr ([(''status'', Val (JStr ''EXPIRED''))], OK)"
  by (simp add: check_permit_details_def expired_registration_def host_request_def)

text \<open>
  Claim C5. For an active host registration, let \<open>rc\<close> and \<open>pc\<close> be the postal codes of
  the claim and of the permit with the spaces removed and in lower case. When the
  checks return, no POSTAL_CODE_MISMATCH is among the errors exactly when \<open>rc\<close> equals
  \<open>pc\<close>, or \<open>rc\<close> has at least four characters and the first four characters of both are
  equal.
\<close>

theorem host_postal_code_check:
  assumes "status reg = ACTIVE" and "registration_type reg = HOST"
    and "address_object req = Inr a" and "rental_property reg = Some p"
    and "request_postal_code a = Inr rc" and "permit_postal_code p = Inr pc"
    and "unit_number_check a p = Inr u"
  shows "\<exists>errors. check_permit_details msg render req reg = Inr (respond msg render req reg errors)
     \<and> (POSTAL_CODE_MISMATCH \<notin> set errors
          \<longleftrightarrow> (rc = pc \<or> (length rc \<ge> 4 \<and> take 4 rc = take 4 pc)))"
  using host_outcome [OF assms, of msg render]
  by (auto simp add: postal_code_mismatch_def)

theorem host_postal_code_check_witness:
  "status host_registration = ACTIVE \<and> registration_type host_registration = HOST
   \<and> address_object host_request = Inr host_claim
   \<and> rental_property host_registration = Some host_address
   \<and> request_postal_code host_claim = Inr ''v8v1v1''
   \<and> permit_postal_code host_address = Inr ''v8v1v2''
   \<and> unit_number_check host_claim host_address = Inr False
   \<and> (\<exists>errors. check_permit_details no_message no_date host_request host_registration
          = Inr (respond no_message no_date host_request host_registration errors)
        \<and> POSTAL_CODE_MISMATCH \<notin> set errors)"
proof -
  note h = host_example_facts host_example_postal host_example_unit
  from host_postal_code_check [OF h, of no_message no_date]
  show ?thesis using h by simp
qed

lemma unit_number_check_cases:
  assumes "get_or_none a ''unitNumber'' = claim_unit cu"
  shows "unit_number_check a p = Inr
     (if has_unit cu \<and> has_unit (unit_number p)
      then get_filtered_unit_number (the cu) \<noteq> get_filtered_unit_number (the (unit_number p))
      else has_unit cu \<noteq> has_unit (unit_number p))"
  using assms
  by (auto simp add: unit_number_check_def has_unit_def claim_unit_def split: option.splits)

text \<open>
  Claim C1. For an active host registration, let the claim's unit number be \<open>cu\<close>
  (absent, or a string) and the permit's be \<open>unit_number p\<close>; a unit number is there when
  it is a non-empty string. The checks return, and UNIT_NUMBER_MISMATCH is among the
  errors exactly when: both have a unit number and the normalized forms differ, or
  exactly one of them has a unit number. When neither has one, there is no such error.
\<close>

theorem host_unit_number_check:
  assumes "status reg = ACTIVE" and "registration_type reg = HOST"
    and "address_object req = Inr a" and "rental_property reg = Some p"
    and "request_postal_code a = Inr rc" and "permit_postal_code p = Inr pc"
    and "get_or_none a ''unitNumber'' = claim_unit cu"
  shows "\<exists>errors. check_permit_details msg render req reg = Inr (respond msg render req reg errors)
     \<and> (UNIT_NUMBER_MISMATCH \<in> set errors \<longleftrightarrow>
          (if has_unit cu \<and> has_unit (unit_number p)
           then get_filtered_unit_number (the cu) \<noteq> get_filtered_unit_number (the (unit_number p))
           else has_unit cu \<noteq> has_unit (unit_number p)))"
  using host_outcome [OF assms(1-6) unit_number_check_cases [OF assms(7)], of msg render]
  by auto

theorem host_unit_number_check_witness:
  "status host_registration = ACTIVE \<and> registration_type host_registration = HOST
   \<and> address_object host_request = Inr host_claim
   \<and> rental_property host_registration = Some host_address
   \<and> request_postal_code host_claim = Inr ''v8v1v1''
   \<and> permit_postal_code host_address = Inr ''v8v1v2''
   \<and> get_or_none host_claim ''unitNumber'' = claim_unit (Some ''4B'')
   \<and> has_unit (Some ''4B'') \<and> has_unit (unit_number host_address)
   \<and> (\<exists>errors. check_permit_details no_message no_date host_request host_registration
          = Inr (respond no_message no_date host_request host_registration errors)
        \<and> UNIT_NUMBER_MISMATCH \<notin> set errors)"
proof -
  have u: "get_or_none host_claim ''unitNumber'' = claim_unit (Some ''4B'')"
    by (simp add: get_or_none_def host_claim_def claim_unit_def)
  have n: "has_unit (Some ''4B'')" "has_unit (unit_number host_address)"
    "the (unit_number host_address) = ''4B''"
    by (simp_all add: has_unit_def host_address_def)
  note h = host_example_facts host_example_postal
  from host_unit_number_check [OF h u, of no_message no_date]
  show ?thesis using h u n by simp
qed

lemma empty_claim_unit_is_absent:
  assumes "get_or_none a' ''unitNumber'' = JStr []" and "get_or_none a'' ''unitNumber'' = JNull"
  shows "unit_number_check a' q = unit_number_check a'' q"
  using assms by (simp add: unit_number_check_def)

lemma empty_permit_unit_is_absent:
  "unit_number_check a' (q\<lparr>unit_number := Some []\<rparr>)
     = unit_number_check a' (q\<lparr>unit_number := None\<rparr>)"
  by (simp add: unit_number_check_def Let_def)

text \<open>
  Claim C9. For an active host registration where the claim and the permit both have a
  non-empty unit number and both normalize to the empty string, no UNIT_NUMBER_MISMATCH
  is among the errors. And an empty string is a missing unit number: the unit number
  check gives a claim whose unit number is the empty string the result it gives a
  claim without one, and likewise for the permit.
\<close>

theorem empty_normal_forms_match:
  assumes "status reg = ACTIVE" and "registration_type reg = HOST"
    and "address_object req = Inr a" and "rental_property reg = Some p"
    and "request_postal_code a = Inr rc" and "permit_postal_code p = Inr pc"
    and "get_or_none a ''unitNumber'' = JStr u" and "unit_number p = Some v"
    and "u \<noteq> []" and "v \<noteq> []"
    and "get_filtered_unit_number u = []" and "get_filtered_unit_number v = []"
  shows "(\<exists>errors. check_permit_details msg render req reg = Inr (respond msg render req reg errors)
            \<and> UNIT_NUMBER_MISMATCH \<notin> set errors)
     \<and> (\<forall>a' a'' q. get_or_none a' ''unitNumber'' = JStr [] \<and> get_or_none a'' ''unitNumber'' = JNull
            \<longrightarrow> unit_number_check a' q = unit_number_check a'' q)
     \<and> (\<forall>a' q. unit_number_check a' (q\<lparr>unit_number := Some []\<rparr>)
                  = unit_number_check a' (q\<lparr>unit_number := None\<rparr>))"
proof -
  have "unit_number_check a p = Inr False"
    using assms(7-12) by (simp add: unit_number_check_def)
  from host_outcome [OF assms(1-6) this, of msg render]
  have "\<exists>errors. check_permit_details msg render req reg = Inr (respond msg render req reg errors)
            \<and> UNIT_NUMBER_MISMATCH \<notin> set errors"
    by auto
  then show ?thesis
    using empty_claim_unit_is_absent empty_permit_unit_is_absent by blast
qed

theorem empty_normal_forms_match_witness:
  "get_or_none suite_claim ''unitNumber'' = JStr ''Suite''
   \<and> unit_number room_address = Some ''Room''
   \<and> get_filtered_unit_number ''Suite'' = [] \<and> get_filtered_unit_number ''Room'' = []
   \<and> (\<exists>errors. check_permit_details no_message no_date suite_request room_registration
          = Inr (respond no_message no_date suite_request room_registration errors)
        \<and> UNIT_NUMBER_MISMATCH \<notin> set errors)
   \<and> unit_number_check [(''unitNumber'', JStr [])] host_address = unit_number_check [] host_address"
proof -
  have h: "status room_registration = ACTIVE" "registration_type room_registration = HOST"
    "address_object suite_request = Inr suite_claim"
    "rental_property room_registration = Some room_address"
    by (simp_all add: room_registration_def host_registration_def suite_request_def
        address_object_def)
  have c: "request_postal_code suite_claim = Inr ''v8v1v1''"
    "permit_postal_code room_address = Inr ''v8v1v2''"
    by code_simp+
  have u: "get_or_none suite_claim ''unitNumber'' = JStr ''Suite''"
    "unit_number room_address = Some ''Room''"
    by (simp_all add: get_or_none_def suite_claim_def room_address_def)
  have e: "''Suite'' \<noteq> []" "''Room'' \<noteq> []" by simp_all
  have f: "get_filtered_unit_number ''Suite'' = []" "get_filtered_unit_number ''Room'' = []"
    by code_simp+
  have g: "get_or_none [(''unitNumber'', JStr [])] ''unitNumber'' = JStr []
      \<and> get_or_none [] ''unitNumber'' = JNull"
    by (simp add: get_or_none_def)
  from empty_normal_forms_match [OF h c u e f, of no_message no_date]
  show ?thesis using u f g by blast
qed

lemma strata_outcome:
  assumes "status reg = ACTIVE" and "registration_type reg = STRATA_HOTEL"
    and "address_object req = Inr a" and "strata_hotel reg = Some sh"
    and "strata_checks a sh = Inr errors"
  shows "check_permit_details msg render req reg = Inr (respond msg render req reg errors)"
  using assms by (simp add: check_permit_details_def)

lemma buildings_match_first:
  assumes "\<forall>x\<in>set pre. candidate_matches a x = Inr False"
    and "rest = [] \<or> candidate_matches a (hd rest) = Inr True"
  shows "buildings_match a (pre @ rest) = Inr (rest \<noteq> [])"
  using assms
proof (induction pre)
  case Nil
  then show ?case by (cases rest) auto
next
  case (Cons x pre)
  then show ?case by simp
qed

lemma strata_checks_candidates:
  "strata_checks a sh = (case buildings_match a (location sh # buildings sh) of
      Inl e \<Rightarrow> Inl e | Inr m \<Rightarrow> Inr (if m then [] else [ADDRESS_MISMATCH]))"
  by (auto simp add: strata_checks_def split: sum.splits)

lemma candidate_matches_eq:
  assumes "street_address x = Some line" and "postal_code x = Some pc"
    and "request_postal_code a = Inr rc"
  shows "candidate_matches a x = Inr
     (extract_street_number (get_text_after_hyphen line)
        \<in> {strip (py_str (get_or_none a ''streetNumber'')),
            split_space_first (strip (py_str (get_or_none a ''streetNumber'')))}
      \<and> take 4 rc = take 4 (lower (remove_spaces pc)))"
  using assms by (simp add: candidate_matches_def permit_postal_code_def Let_def)

lemma strata_example_facts:
  "status (strata_registration sh) = ACTIVE"
  "registration_type (strata_registration sh) = STRATA_HOTEL"
  "address_object strata_request = Inr strata_claim"
  "address_object no_postal_request = Inr no_postal_claim"
  "strata_hotel (strata_registration sh) = Some sh"
  by (simp_all add: strata_registration_def strata_request_def no_postal_request_def
      address_object_def)

text \<open>
  Claim C2, as the code has it. For an active strata registration the candidates are
  the primary location and then the buildings in sequence order. The street number of
  a candidate is the text before the first space character of the trimmed text after
  the first hyphen of its street-address line (of the whole line when it has no
  hyphen); a candidate matches exactly when that number is the trimmed street number
  of the claim or the text before its first space character and the first four
  characters of the space-stripped, lower-cased postal codes are equal. Evaluation
  stops at the first candidate that matches: whatever comes behind it is not read.
  When no candidate matches, the one error ADDRESS_MISMATCH is returned.
\<close>

theorem strata_first_match:
  assumes "status reg = ACTIVE" and "registration_type reg = STRATA_HOTEL"
    and "address_object req = Inr a" and "strata_hotel reg = Some sh"
    and "location sh # buildings sh = pre @ rest"
    and "\<forall>x\<in>set pre. candidate_matches a x = Inr False"
    and "rest = [] \<or> candidate_matches a (hd rest) = Inr True"
  shows "check_permit_details msg render req reg
           = Inr (respond msg render req reg (if rest = [] then [ADDRESS_MISMATCH] else []))
     \<and> (\<forall>x line pc rc. street_address x = Some line \<and> postal_code x = Some pc
            \<and> request_postal_code a = Inr rc \<longrightarrow>
          candidate_matches a x = Inr
            (extract_street_number (get_text_after_hyphen line)
               \<in> {strip (py_str (get_or_none a ''streetNumber'')),
                   split_space_first (strip (py_str (get_or_none a ''streetNumber'')))}
             \<and> take 4 rc = take 4 (lower (remove_spaces pc))))"
proof -
  have "strata_checks a sh = Inr (if rest = [] then [ADDRESS_MISMATCH] else [])"
    using buildings_match_first [OF assms(6,7)] assms(5)
    by (simp add: strata_checks_candidates)
  from strata_outcome [OF assms(1-4) this]
  show ?thesis using candidate_matches_eq by blast
qed

theorem strata_first_match_witness:
  "location resort # buildings resort
     = [plain_address ''100 Main St'' ''V8V 1V1'', plain_address ''A-12 Oak St'' ''V9A 2B2'',
        plain_address ''14 Oak St'' ''V8V 1V1'']
       @ [plain_address ''B - 12 Oak St'' ''V8V 1Z9'', blank_address]
   \<and> candidate_matches strata_claim (plain_address ''100 Main St'' ''V8V 1V1'') = Inr False
   \<and> candidate_matches strata_claim (plain_address ''A-12 Oak St'' ''V9A 2B2'') = Inr False
   \<and> candidate_matches strata_claim (plain_address ''14 Oak St'' ''V8V 1V1'') = Inr False
   \<and> candidate_matches strata_claim (plain_address ''B - 12 Oak St'' ''V8V 1Z9'') = Inr True
   \<and> candidate_matches strata_claim blank_address = Inl TypeError
   \<and> check_permit_details no_message no_date strata_request (strata_registration resort)
       = Inr (respond no_message no_date strata_request (strata_registration resort) [])"
proof -
  have s: "location resort # buildings resort
     = [plain_address ''100 Main St'' ''V8V 1V1'', plain_address ''A-12 Oak St'' ''V9A 2B2'',
        plain_address ''14 Oak St'' ''V8V 1V1'']
       @ [plain_address ''B - 12 Oak St'' ''V8V 1Z9'', blank_address]"
    by (simp add: resort_def)
  have m: "candidate_matches strata_claim (plain_address ''100 Main St'' ''V8V 1V1'') = Inr False"
    "candidate_matches strata_claim (plain_address ''A-12 Oak St'' ''V9A 2B2'') = Inr False"
    "candidate_matches strata_claim (plain_address ''14 Oak St'' ''V8V 1V1'') = Inr False"
    "candidate_matches strata_claim (plain_address ''B - 12 Oak St'' ''V8V 1Z9'') = Inr True"
    "candidate_matches strata_claim blank_address = Inl TypeError"
    by code_simp+
  have p: "\<forall>x\<in>set [plain_address ''100 Main St'' ''V8V 1V1'', plain_address ''A-12 Oak St'' ''V9A 2B2'',
        plain_address ''14 Oak St'' ''V8V 1V1'']. candidate_matches strata_claim x = Inr False"
    using m by simp
  have r: "[plain_address ''B - 12 Oak St'' ''V8V 1Z9'', blank_address] = []
      \<or> candidate_matches strata_claim
           (hd [plain_address ''B - 12 Oak St'' ''V8V 1Z9'', blank_address]) = Inr True"
    using m by simp
  from strata_first_match [OF strata_example_facts(1,2,3,5) s p r, of no_message no_date]
  show ?thesis using s m by simp
qed

text \<open>
  Claim C2 as stated takes the first white-space token. The line of the primary
  location below has a tab behind the number 12: in the words of the claim the
  location matches the claim, and the code returns ADDRESS_MISMATCH.
\<close>

theorem strata_whitespace_token_counterexample:
  "spec_candidate_matches ''12'' ''V8V1V1'' tab_line ''V8V 1V1''
   \<and> check_permit_details no_message no_date strata_request (strata_registration tab_hotel)
       = Inr (respond no_message no_date strata_request (strata_registration tab_hotel)
               [ADDRESS_MISMATCH])"
proof -
  have "spec_candidate_matches ''12'' ''V8V1V1'' tab_line ''V8V 1V1''"
    by code_simp
  moreover have "strata_checks strata_claim tab_hotel = Inr [ADDRESS_MISMATCH]"
    by code_simp
  ultimately show ?thesis
    using strata_outcome [OF strata_example_facts(1,2,3,5), of tab_hotel] by simp
qed

text \<open>
  Claim C10, as the code has it. In the strata variant, once the street number of a
  candidate has matched, the candidate matches exactly when the first four characters
  of the space-stripped, lower-cased postal codes are equal, with no minimum length:
  two codes shorter than four characters match exactly when they are equal, and a
  request without a postal code matches a candidate whose stored postal code is empty
  or made of space characters only.
\<close>

theorem strata_postal_prefix:
  assumes "street_address c = Some line"
    and "extract_street_number (get_text_after_hyphen line)
           \<in> {strip (py_str (get_or_none a ''streetNumber'')),
               split_space_first (strip (py_str (get_or_none a ''streetNumber'')))}"
    and "request_postal_code a = Inr rc" and "postal_code c = Some pc"
  shows "candidate_matches a c = Inr (take 4 rc = take 4 (lower (remove_spaces pc)))
     \<and> (length rc < 4 \<and> length (lower (remove_spaces pc)) < 4 \<longrightarrow>
          candidate_matches a c = Inr (rc = lower (remove_spaces pc)))
     \<and> (map_of a ''postalCode'' = None \<and> (\<forall>ch\<in>set pc. ch = CHR '' '') \<longrightarrow>
          candidate_matches a c = Inr True)"
proof -
  have m: "candidate_matches a c = Inr (take 4 rc = take 4 (lower (remove_spaces pc)))"
    using candidate_matches_eq [OF assms(1,4,3)] assms(2) by simp
  have "remove_spaces pc = []" if "\<forall>ch\<in>set pc. ch = CHR '' ''"
    using that by (auto simp add: remove_spaces_def filter_empty_conv)
  moreover have "rc = []" if "map_of a ''postalCode'' = None"
    using that assms(3) by (simp add: request_postal_code_def)
  ultimately show ?thesis using m by (auto simp add: lower_def)
qed

theorem strata_postal_prefix_witness:
  "street_address (location spaces_postal_hotel) = Some ''12 Main St''
   \<and> extract_street_number (get_text_after_hyphen ''12 Main St'')
       = strip (py_str (get_or_none no_postal_claim ''streetNumber''))
   \<and> request_postal_code no_postal_claim = Inr []
   \<and> postal_code (location spaces_postal_hotel) = Some ''  ''
   \<and> map_of no_postal_claim ''postalCode'' = None
   \<and> candidate_matches no_postal_claim (location spaces_postal_hotel) = Inr True"
proof -
  have a: "street_address (location spaces_postal_hotel) = Some ''12 Main St''"
    "postal_code (location spaces_postal_hotel) = Some ''  ''"
    by (simp_all add: spaces_postal_hotel_def plain_address_def)
  have n: "extract_street_number (get_text_after_hyphen ''12 Main St'')
       = strip (py_str (get_or_none no_postal_claim ''streetNumber''))"
    by code_simp
  then have b: "extract_street_number (get_text_after_hyphen ''12 Main St'')
      \<in> {strip (py_str (get_or_none no_postal_claim ''streetNumber'')),
          split_space_first (strip (py_str (get_or_none no_postal_claim ''streetNumber'')))}"
    by simp
  have c: "request_postal_code no_postal_claim = Inr []"
    "map_of no_postal_claim ''postalCode'' = None"
    by (simp_all add: request_postal_code_def no_postal_claim_def)
  have d: "\<forall>ch\<in>set ''  ''. ch = CHR '' ''" by simp
  from strata_postal_prefix [OF a(1) b c(1) a(2)] c(2) d
  have "candidate_matches no_postal_claim (location spaces_postal_hotel) = Inr True"
    by blast
  with a n c show ?thesis by simp
qed

text \<open>
  Claim C10 as stated lets a request without a postal code match every candidate whose
  stored postal code is white space only. The stored postal code below is a single
  tab, which \<^verbatim>\<open>replace(" ", "")\<close> keeps: the street number matches, the candidate does
  not, and ADDRESS_MISMATCH is returned.
\<close>

theorem strata_tab_postal_counterexample:
  "map_of no_postal_claim ''postalCode'' = None
   \<and> postal_code (location tab_postal_hotel) = Some [CHR 0x09]
   \<and> is_space (CHR 0x09)
   \<and> extract_street_number (get_text_after_hyphen ''12 Main St'')
       = strip (py_str (get_or_none no_postal_claim ''streetNumber''))
   \<and> candidate_matches no_postal_claim (location tab_postal_hotel) = Inr False
   \<and> check_permit_details no_message no_date no_postal_request (strata_registration tab_postal_hotel)
       = Inr (respond no_message no_date no_postal_request (strata_registration tab_postal_hotel)
               [ADDRESS_MISMATCH])"
proof -
  have a: "map_of no_postal_claim ''postalCode'' = None"
    "postal_code (location tab_postal_hotel) = Some [CHR 0x09]"
    by (simp_all add: no_postal_claim_def tab_postal_hotel_def plain_address_def)
  have b: "is_space (CHR 0x09)"
    "extract_street_number (get_text_after_hyphen ''12 Main St'')
       = strip (py_str (get_or_none no_postal_claim ''streetNumber''))"
    "candidate_matches no_postal_claim (location tab_postal_hotel) = Inr False"
    by code_simp+
  have "strata_checks no_postal_claim tab_postal_hotel = Inr [ADDRESS_MISMATCH]"
    by code_simp
  from strata_outcome [OF strata_example_facts(1,2,4,5) this, of no_message no_date]
  show ?thesis using a b by simp
qed

lemma unit_number_check_returns:
  assumes "case get_or_none a ''unitNumber'' of JStr u \<Rightarrow> True | v \<Rightarrow> \<not> truthy v"
  shows "\<exists>u. unit_number_check a p = Inr u"
proof -
  have "\<not> isl (unit_number_check a p)"
    using assms
    by (cases "get_or_none a ''unitNumber''")
       (auto simp add: unit_number_check_def split: option.splits)
  then show ?thesis
    by (cases "unit_number_check a p") auto
qed

lemma buildings_match_returns:
  assumes "list_all complete_address cs" and "request_postal_code a = Inr rc"
  shows "\<not> isl (buildings_match a cs)"
  using assms(1)
proof (induction cs)
  case Nil
  then show ?case by simp
next
  case (Cons c cs)
  then obtain line pc where "street_address c = Some line" "postal_code c = Some pc"
    by (auto simp add: complete_address_def)
  from candidate_matches_eq [OF this assms(2)] Cons show ?case
    by auto
qed

text \<open>
  Claim C8, as the code has it. \<^verbatim>\<open>check_permit_details\<close> returns a response and a
  status code, and raises nothing, for every request whose address is an object with a
  postal code that is missing or a string and a unit number that is a string or falsy,
  and every registration whose records are on file: for a host the rental property
  address with its postal code, for a strata hotel the primary location and every
  building with street-address line and postal code.
\<close>

theorem check_permit_details_returns:
  assumes "claim_well_typed req" and "records_present reg"
  shows "\<exists>response st. check_permit_details msg render req reg = Inr (response, st)"
proof (cases "status reg = ACTIVE")
  case False
  then show ?thesis by (simp add: check_permit_details_def)
next
  case active: True
  from assms(1) obtain a rc where a: "address_object req = Inr a"
    and rc: "request_postal_code a = Inr rc"
    and un: "case get_or_none a ''unitNumber'' of JStr u \<Rightarrow> True | v \<Rightarrow> \<not> truthy v"
    by (auto simp add: claim_well_typed_def split: sum.splits)
  show ?thesis
  proof (cases "registration_type reg")
    case HOST
    with assms(2) obtain p pc where p: "rental_property reg = Some p" "postal_code p = Some pc"
      by (auto simp add: records_present_def split: option.splits)
    then have pc: "permit_postal_code p = Inr (lower (remove_spaces pc))"
      by (simp add: permit_postal_code_def)
    from unit_number_check_returns [OF un] obtain u where "unit_number_check a p = Inr u"
      by blast
    from host_outcome [OF active HOST a p(1) rc pc this, of msg render]
    show ?thesis by (metis surj_pair)
  next
    case STRATA_HOTEL
    with assms(2) obtain sh where sh: "strata_hotel reg = Some sh"
      "list_all complete_address (location sh # buildings sh)"
      by (auto simp add: records_present_def split: option.splits)
    from buildings_match_returns [OF sh(2) rc]
    obtain errors where "strata_checks a sh = Inr errors"
      by (cases "buildings_match a (location sh # buildings sh)")
         (auto simp add: strata_checks_candidates)
    from strata_outcome [OF active STRATA_HOTEL a sh(1) this, of msg render]
    show ?thesis by (metis surj_pair)
  next
    case OTHER_TYPE
    with active show ?thesis
      by (simp add: check_permit_details_def)
  qed
qed

theorem check_permit_details_returns_witness:
  "claim_well_typed host_request \<and> records_present host_registration
   \<and> (\<exists>response st. check_permit_details no_message no_date host_request host_registration
         = Inr (response, st))"
proof -
  have h: "claim_well_typed host_request" "records_present host_registration"
    by code_simp+
  from check_permit_details_returns [OF h, of no_message no_date]
  show ?thesis using h by simp
qed

text \<open>
  Claim C8 as stated includes records with a missing postal code. For the active host
  registration whose permit address has no postal code, \<^verbatim>\<open>None.replace\<close> raises an
  attribute error, which leaves \<^verbatim>\<open>check_permit_details\<close>.
\<close>

theorem missing_postal_code_counterexample:
  "postal_code (the (rental_property no_postal_registration)) = None
   \<and> check_permit_details no_message no_date host_request no_postal_registration
       = Inl AttributeError"
  by (simp add: check_permit_details_def no_postal_registration_def host_registration_def
      host_request_def address_object_def host_checks_def host_example_postal
      permit_postal_code_def)


section \<open>Properties of the orchestrator\<close>



section \<open>Properties of the normalizer\<close>



lemma code_lower_char:
  "code (lower_char c) = (if 65 \<le> code c \<and> code c \<le> 90 then code c + 32 else code c)"
  by (simp add: lower_char_def code_def)

lemma is_word_lower_char: "is_word (lower_char c) = is_word c"
  by (auto simp add: is_word_def code_lower_char)





lemma keyword_heads: "\<forall>k\<in>set unit_keywords. k \<noteq> [] \<and> is_word (hd k)"
  by (simp add: unit_keywords_def is_word_def code_def)

lemma match_len_word:
  assumes "match_len (c # cs) \<noteq> 0"
  shows "is_word c"
proof -
  from assms obtain k where "find (\<lambda>k. matches_at k (c # cs)) unit_keywords = Some k"
    by (auto simp add: match_len_def split: option.splits)
  then have k: "k \<in> set unit_keywords" "matches_at k (c # cs)"
    by (auto simp add: find_Some_iff)
  with keyword_heads obtain h t where ht: "k = h # t" "is_word h"
    by (cases k) auto
  with k(2) have "lower_char c = h"
    by (simp add: matches_at_def lower_def)
  with ht(2) show ?thesis
    using is_word_lower_char by blast
qed

lemma kw_scan_separator:
  assumes "\<not> is_word c"
  shows "kw_scan 0 pw (c # cs) = c # kw_scan 0 False cs"
  using assms match_len_word [of c cs] by (cases "match_len (c # cs)") auto

lemma kw_scan_separators:
  assumes "\<forall>c\<in>set pre. \<not> is_word c"
  shows "kw_scan 0 False (pre @ s) = pre @ kw_scan 0 False s"
  using assms by (induction pre) (simp_all add: kw_scan_separator del: kw_scan.simps(3))

lemma kw_scan_inside_word:
  assumes "\<forall>c\<in>set w. is_word c" and "n \<le> length w"
  shows "kw_scan n True (w @ post) = drop n w @ kw_scan 0 True post"
  using assms
proof (induction w arbitrary: n)
  case Nil
  then show ?case by simp
next
  case (Cons c w)
  then show ?case by (cases n) simp_all
qed

lemma kw_scan_after_word:
  assumes "post = [] \<or> \<not> is_word (hd post)"
  shows "kw_scan 0 True post = kw_scan 0 False post"
  using assms by (cases post) (simp_all add: kw_scan_separator del: kw_scan.simps(3))

text \<open>
  Claim C3, as the code has it. Each keyword is removed, whatever its case, where it
  begins at the start of a word, whether or not the word ends behind it. In a text
  \<open>pre @ w @ post\<close>, where \<open>pre\<close> has no word character, \<open>w\<close> has word characters only and
  \<open>post\<close> is empty or begins with a character that is no word character, the scan
  removes from \<open>w\<close> the characters of the first alternative that matches at the head of
  \<open>w @ post\<close>, and nothing when no alternative matches there, provided the match ends
  inside \<open>w\<close>; it keeps \<open>pre\<close> and the rest of \<open>w\<close> and treats \<open>post\<close> on its own. So a
  keyword that is a whole word goes, a keyword that is a proper prefix of a longer word
  goes as well, and a keyword that occurs only inside a word, behind its first
  character, stays.
\<close>

theorem keyword_removed_at_word_start:
  assumes "\<forall>c\<in>set pre. \<not> is_word c" and "\<forall>c\<in>set w. is_word c"
    and "post = [] \<or> \<not> is_word (hd post)"
    and "match_len (w @ post) \<le> length w"
  shows "remove_keywords (pre @ w @ post)
           = pre @ drop (match_len (w @ post)) w @ remove_keywords post"
proof -
  have "kw_scan 0 False (w @ post) = drop (match_len (w @ post)) w @ kw_scan 0 False post"
  proof (cases w)
    case Nil
    with assms(4) show ?thesis by simp
  next
    case (Cons c w')
    show ?thesis
    proof (cases "match_len (w @ post)")
      case 0
      with Cons assms(2) kw_scan_inside_word [of w' 0 post] kw_scan_after_word [OF assms(3)]
      show ?thesis by simp
    next
      case (Suc m)
      with Cons assms(2,4) kw_scan_inside_word [of w' m post] kw_scan_after_word [OF assms(3)]
      show ?thesis by simp
    qed
  qed
  with kw_scan_separators [OF assms(1)] show ?thesis
    by (simp add: remove_keywords_def)
qed

theorem keyword_removed_at_word_start_witness:
  "list_all is_word ''Suite'' \<and> \<not> is_word (hd '' 4B'') \<and> match_len ''Suite 4B'' = 5
   \<and> remove_keywords ''Suite 4B'' = '' 4B''
   \<and> list_all (\<lambda>c. \<not> is_word c) ''# '' \<and> list_all is_word ''xLot''
   \<and> match_len ''xLot'' = 0
   \<and> remove_keywords ''# xLot'' = ''# xLot''"
proof -
  have a: "\<forall>c\<in>set []. \<not> is_word c" "\<forall>c\<in>set ''Suite''. is_word c"
    "'' 4B'' = [] \<or> \<not> is_word (hd '' 4B'')"
    by (simp_all add: is_word_def code_def)
  have b: "match_len (''Suite'' @ '' 4B'') = 5" "remove_keywords '' 4B'' = '' 4B''"
    by code_simp+
  then have c: "match_len (''Suite'' @ '' 4B'') \<le> length ''Suite''" by simp
  have 1: "remove_keywords ''Suite 4B'' = '' 4B''"
    using keyword_removed_at_word_start [OF a c] b by simp
  have d: "\<forall>c\<in>set ''# ''. \<not> is_word c" "\<forall>c\<in>set ''xLot''. is_word c"
    "[] = [] \<or> \<not> is_word (hd [])"
    by (simp_all add: is_word_def code_def)
  have e: "match_len (''xLot'' @ []) = 0" "remove_keywords [] = []"
    by code_simp+
  then have f: "match_len (''xLot'' @ []) \<le> length ''xLot''" by simp
  have 2: "remove_keywords ''# xLot'' = ''# xLot''"
    using keyword_removed_at_word_start [OF d f] e by simp
  from 1 2 a d b e show ?thesis by simp
qed

text \<open>
  Claim C3 as stated keeps a keyword that is only a proper prefix of a longer word. The
  pattern has no word boundary behind the alternatives: \<^verbatim>\<open>Lot\<close> is removed from
  \<^verbatim>\<open>Lottery\<close>.
\<close>

theorem keyword_prefix_counterexample:
  "remove_keywords ''Lottery'' = ''tery'' \<and> get_filtered_unit_number ''Lottery'' = ''TERY''"
  by code_simp















end
